theory Spec2Isabelle
  imports Main "HOL-Library.Word"
begin

section \<open>godns: a command-line DNS lookup utility (main.go)\<close>

text \<open>
  The program takes one command-line argument, classifies it with \<^verbatim>\<open>net.ParseIP\<close> as an
  IP literal or a domain name, and either performs a reverse (PTR) lookup or walks a fixed
  table of ten record-type lookups, printing every outcome. Strings are Go strings, that
  is byte sequences, modelled as \<^typ>\<open>string\<close>. Functions of the Go standard library and
  of \<^verbatim>\<open>github.com/miekg/dns\<close> that the program calls are not part of the repository: the
  pure ones (\<^verbatim>\<open>net.ParseIP\<close>, \<^verbatim>\<open>IP.To4\<close>, \<^verbatim>\<open>IP.To16\<close>, \<^verbatim>\<open>fmt\<close> verbs) are modelled after
  the library, and the ones that talk to the network are fields of a resolver record, so
  that every theorem holds for every behaviour of the network.
\<close>

subsection \<open>Bytes, characters and number formatting\<close>

type_synonym byte = "8 word"

definition byte_of_char :: "char \<Rightarrow> nat" where
  "byte_of_char c = of_char c"

definition isDigit :: "char \<Rightarrow> bool" where
  "isDigit c = (48 \<le> byte_of_char c \<and> byte_of_char c \<le> 57)"

text \<open>The digit tables of \<^verbatim>\<open>strconv\<close> and \<^verbatim>\<open>fmt\<close>, read at an index below 10 and 16.\<close>

definition digit_char :: "nat \<Rightarrow> char" where
  "digit_char d = ''0123456789'' ! d"

text \<open>The verb \<^verbatim>\<open>%d\<close> of \<^verbatim>\<open>fmt\<close> on an unsigned integer: its decimal digits.\<close>

function fmt_d :: "nat \<Rightarrow> string" where
  "fmt_d n = (if n < 10 then [digit_char n] else fmt_d (n div 10) @ [digit_char (n mod 10)])"
  by pat_completeness auto
termination
  by (relation "measure (\<lambda>n. n)") auto

declare fmt_d.simps [simp del]

definition hex_digit_char :: "nat \<Rightarrow> char" where
  "hex_digit_char d = ''0123456789abcdef'' ! d"

text \<open>The verb \<^verbatim>\<open>%x\<close> of \<^verbatim>\<open>fmt\<close> on a string: two lower-case hex digits per byte.\<close>

fun fmt_x :: "string \<Rightarrow> string" where
  "fmt_x [] = []"
| "fmt_x (c # cs) =
     hex_digit_char (byte_of_char c div 16) # hex_digit_char (byte_of_char c mod 16) # fmt_x cs"

subsection \<open>IP addresses of package net\<close>

text \<open>
  Go's \<^verbatim>\<open>type IP []byte\<close>. The nil slice is \<open>None\<close>; a non-nil address is its bytes.
\<close>

type_synonym IP = "byte list option"

definition v4InV6Prefix :: "byte list" where
  "v4InV6Prefix = [0, 0, 0, 0, 0, 0, 0, 0, 0, 0, 0xff, 0xff]"

definition isZeros :: "byte list \<Rightarrow> bool" where
  "isZeros p = list_all (\<lambda>b. b = 0) p"

text \<open>
  \<^verbatim>\<open>func (ip IP) To4() IP\<close>: a 4-byte address is returned as it is, a 16-byte address
  with the IPv4-in-IPv6 prefix gives its last four bytes, anything else (also nil, of
  length 0) gives nil.
\<close>

fun To4 :: "IP \<Rightarrow> IP" where
  "To4 None = None"
| "To4 (Some ip) =
     (if length ip = 4 then Some ip
      else if length ip = 16 \<and> isZeros (take 10 ip) \<and> ip ! 10 = 0xff \<and> ip ! 11 = 0xff
        then Some (drop 12 ip)
      else None)"

text \<open>
  \<^verbatim>\<open>func (ip IP) To16() IP\<close>: a 4-byte address is widened with the IPv4-in-IPv6
  prefix, a 16-byte address is returned as it is, anything else gives nil.
\<close>

fun To16 :: "IP \<Rightarrow> IP" where
  "To16 None = None"
| "To16 (Some ip) =
     (if length ip = 4 then Some (v4InV6Prefix @ ip)
      else if length ip = 16 then Some ip
      else None)"

subsection \<open>Parsing address literals: net.ParseIP\<close>

text \<open>
  \<^verbatim>\<open>net.ParseIP\<close> is \<^verbatim>\<open>netip.ParseAddr\<close> followed by the 16-byte form of the address;
  an address with a zone is refused. The loops of the library are written as recursive
  functions over the rest of the string, with the loop variables as arguments.

  \<^verbatim>\<open>parseIPv4Fields\<close>: dotted decimal, exactly four fields, each at most 255 and without
  a leading zero. The arguments after the string are: whether the index is 0, whether
  the previous byte was a dot, \<^verbatim>\<open>val\<close>, \<^verbatim>\<open>digLen\<close>, and the fields stored so far
  (\<^verbatim>\<open>pos\<close> is their number).
\<close>

fun parseIPv4Fields_loop ::
  "string \<Rightarrow> bool \<Rightarrow> bool \<Rightarrow> nat \<Rightarrow> nat \<Rightarrow> byte list \<Rightarrow> byte list option" where
  "parseIPv4Fields_loop [] first prevDot val digLen fields =
     (if length fields < 3 then None else Some (fields @ [of_nat val]))"
| "parseIPv4Fields_loop (c # cs) first prevDot val digLen fields =
     (if isDigit c then
        (if digLen = 1 \<and> val = 0 then None
         else (let val' = val * 10 + (byte_of_char c - 48) in
               if val' > 255 then None
               else parseIPv4Fields_loop cs False False val' (digLen + 1) fields))
      else if c = CHR ''.'' then
        (if first \<or> cs = [] \<or> prevDot then None
         else if length fields = 3 then None
         else parseIPv4Fields_loop cs False True 0 0 (fields @ [of_nat val]))
      else None)"

definition parseIPv4Fields :: "string \<Rightarrow> byte list option" where
  "parseIPv4Fields s = parseIPv4Fields_loop s True False 0 0 []"

text \<open>\<^verbatim>\<open>parseIPv4\<close>, and \<^verbatim>\<open>Addr.As16\<close> of its result.\<close>

definition parseIPv4 :: "string \<Rightarrow> byte list option" where
  "parseIPv4 s = (case parseIPv4Fields s of None \<Rightarrow> None
                  | Some fields \<Rightarrow> Some (v4InV6Prefix @ fields))"

definition hexval :: "char \<Rightarrow> nat option" where
  "hexval c =
     (let b = byte_of_char c in
      if 48 \<le> b \<and> b \<le> 57 then Some (b - 48)
      else if 97 \<le> b \<and> b \<le> 102 then Some (b - 97 + 10)
      else if 65 \<le> b \<and> b \<le> 70 then Some (b - 65 + 10)
      else None)"

text \<open>
  The inner loop of \<^verbatim>\<open>parseIPv6\<close> reads one group of hex digits: it returns \<^verbatim>\<open>off\<close>,
  \<^verbatim>\<open>acc\<close> and the string from \<^verbatim>\<open>off\<close> on, or fails on a fifth digit.
\<close>

fun hex_loop :: "string \<Rightarrow> nat \<Rightarrow> nat \<Rightarrow> (nat \<times> nat \<times> string) option" where
  "hex_loop [] off acc = Some (off, acc, [])"
| "hex_loop (c # cs) off acc =
     (case hexval c of
        None \<Rightarrow> Some (off, acc, c # cs)
      | Some v \<Rightarrow>
          (let acc' = acc * 16 + v in
           if off > 3 then None
           else if acc' > 65535 then None
           else hex_loop cs (off + 1) acc'))"

text \<open>Storing the four fields of an embedded IPv4 address into \<^verbatim>\<open>ip[i:i+4]\<close>.\<close>

fun store :: "byte list \<Rightarrow> nat \<Rightarrow> byte list \<Rightarrow> byte list" where
  "store ip i [] = ip"
| "store ip i (b # bs) = store (ip[i := b]) (i + 1) bs"

text \<open>
  The outer loop of \<^verbatim>\<open>parseIPv6\<close>, \<^verbatim>\<open>for i < 16\<close>. The ellipsis position is an
  \<^typ>\<open>int\<close>, \<open>- 1\<close> while there is none. The result is the rest of the string, \<^verbatim>\<open>i\<close>,
  the ellipsis and the array; \<open>None\<close> is a parse error.
\<close>

function parseIPv6_loop ::
  "string \<Rightarrow> nat \<Rightarrow> int \<Rightarrow> byte list \<Rightarrow> (string \<times> nat \<times> int \<times> byte list) option" where
  "parseIPv6_loop s i ellipsis ip =
     (if \<not> i < 16 then Some (s, i, ellipsis, ip)
      else case hex_loop s 0 0 of
        None \<Rightarrow> None
      | Some (off, acc, rest) \<Rightarrow>
          if off = 0 then None
          else if rest \<noteq> [] \<and> hd rest = CHR ''.'' then
            (if ellipsis < 0 \<and> i \<noteq> 12 then None
             else if i + 4 > 16 then None
             else case parseIPv4Fields s of
                    None \<Rightarrow> None
                  | Some fields \<Rightarrow> Some ([], i + 4, ellipsis, store ip i fields))
          else
            (let ip' = ip[i := of_nat (acc div 256), i + 1 := of_nat acc];
                 i' = i + 2
             in if rest = [] then Some ([], i', ellipsis, ip')
                else if hd rest \<noteq> CHR '':'' then None
                else if length rest = 1 then None
                else (let s1 = tl rest in
                      if hd s1 = CHR '':'' then
                        (if ellipsis \<ge> 0 then None
                         else (let s2 = tl s1 in
                               if s2 = [] then Some ([], i', int i', ip')
                               else parseIPv6_loop s2 i' (int i') ip'))
                      else parseIPv6_loop s1 i' ellipsis ip')))"
  by pat_completeness auto
termination
  by (relation "measure (\<lambda>(s, i, ellipsis, ip). 16 - i)") auto

declare parseIPv6_loop.simps [simp del]

text \<open>
  Expanding the ellipsis: \<^verbatim>\<open>for j := i-1; j >= ellipsis; j-- { ip[j+n] = ip[j] }\<close>,
  here counting the number \<open>k\<close> of bytes still to move, from \<open>j = ellipsis + k - 1\<close> down,
  and then \<^verbatim>\<open>clear(ip[ellipsis : ellipsis+n])\<close>.
\<close>

fun shift_loop :: "byte list \<Rightarrow> nat \<Rightarrow> nat \<Rightarrow> nat \<Rightarrow> byte list" where
  "shift_loop ip e n 0 = ip"
| "shift_loop ip e n (Suc k) = shift_loop (ip[e + k + n := ip ! (e + k)]) e n k"

fun clear :: "byte list \<Rightarrow> nat \<Rightarrow> nat \<Rightarrow> byte list" where
  "clear ip e 0 = ip"
| "clear ip e (Suc k) = clear (ip[e + k := 0]) e k"

text \<open>
  \<^verbatim>\<open>parseIPv6\<close>: the zone is split off at the first \<^verbatim>\<open>%\<close>, a leading \<^verbatim>\<open>::\<close> is an
  ellipsis at 0, then the groups are read, and the ellipsis is expanded. The result is
  the 16 bytes and the zone.
\<close>

definition parseIPv6 :: "string \<Rightarrow> (byte list \<times> string) option" where
  "parseIPv6 inp =
     (let s0 = takeWhile (\<lambda>c. c \<noteq> CHR ''%'') inp;
          hasZone = (CHR ''%'' \<in> set inp);
          zone = (if hasZone then tl (dropWhile (\<lambda>c. c \<noteq> CHR ''%'') inp) else [])
      in if hasZone \<and> zone = [] then None
         else
           (let lead = (length s0 \<ge> 2 \<and> s0 ! 0 = CHR '':'' \<and> s0 ! 1 = CHR '':'');
                ellipsis0 = (if lead then 0 else - 1);
                s = (if lead then drop 2 s0 else s0)
            in if lead \<and> s = [] then Some (replicate 16 0, zone)
               else case parseIPv6_loop s 0 ellipsis0 (replicate 16 0) of
                 None \<Rightarrow> None
               | Some (rest, i, ellipsis, ip) \<Rightarrow>
                   if rest \<noteq> [] then None
                   else if i < 16 then
                     (if ellipsis < 0 then None
                      else (let n = 16 - i; e = nat ellipsis
                            in Some (clear (shift_loop ip e n (i - e)) e n, zone)))
                   else if ellipsis \<ge> 0 then None
                   else Some (ip, zone)))"

text \<open>
  \<^verbatim>\<open>netip.ParseAddr\<close> looks for the first of \<^verbatim>\<open>.\<close>, \<^verbatim>\<open>:\<close> and \<^verbatim>\<open>%\<close> to choose the
  parser; a string with none of them is no address.
\<close>

fun ParseAddr_scan :: "string \<Rightarrow> string \<Rightarrow> (byte list \<times> string) option" where
  "ParseAddr_scan inp [] = None"
| "ParseAddr_scan inp (c # cs) =
     (if c = CHR ''.'' then
        (case parseIPv4 inp of None \<Rightarrow> None | Some ip \<Rightarrow> Some (ip, []))
      else if c = CHR '':'' then parseIPv6 inp
      else if c = CHR ''%'' then None
      else ParseAddr_scan inp cs)"

definition ParseAddr :: "string \<Rightarrow> (byte list \<times> string) option" where
  "ParseAddr s = ParseAddr_scan s s"

text \<open>\<^verbatim>\<open>net.ParseIP\<close>: nil on a parse error and on an address with a zone.\<close>

definition ParseIP :: "string \<Rightarrow> IP" where
  "ParseIP s = (case ParseAddr s of
                  None \<Rightarrow> None
                | Some (ip, zone) \<Rightarrow> if zone \<noteq> [] then None else Some ip)"

subsection \<open>Errors, resource records and the resolver\<close>

text \<open>
  A Go \<^verbatim>\<open>error\<close> is either a value handed back by a library (the system resolver of
  package \<^verbatim>\<open>net\<close>, the client of \<^verbatim>\<open>miekg/dns\<close>), known here by its message, or a value the
  program makes itself with \<^verbatim>\<open>fmt.Errorf\<close>. \<open>Error\<close> is the method \<^verbatim>\<open>Error()\<close>, which the
  verb \<^verbatim>\<open>%v\<close> prints.
\<close>

datatype error = LibError string | Errorf string

fun Error :: "error \<Rightarrow> string" where
  "Error (LibError m) = m"
| "Error (Errorf m) = m"

text \<open>\<^verbatim>\<open>net.MX\<close> and \<^verbatim>\<open>net.NS\<close>.\<close>

record MX =
  Host :: string
  Pref :: "16 word"

record NS =
  Host :: string

text \<open>
  \<^verbatim>\<open>dns.RR\<close> is an interface; the type assertions of the program tell four of its
  implementations apart from every other one. The records hold the fields the program
  reads.
\<close>

record SOA =
  Ns :: string
  Mbox :: string
  Serial :: "32 word"

record SRV =
  Target :: string
  Port :: "16 word"
  Priority :: "16 word"
  Weight :: "16 word"

record CERT =
  Type :: "16 word"
  KeyTag :: "16 word"
  Algorithm :: "8 word"
  Certificate :: string

record DNAME =
  Target :: string

datatype RR = RR_SOA SOA | RR_SRV SRV | RR_CERT CERT | RR_DNAME DNAME | RR_other "16 word"

text \<open>\<^verbatim>\<open>dns.Msg\<close>, as far as the program reads a reply.\<close>

record Msg =
  Rcode :: int
  Answer :: "RR list"

definition RcodeSuccess :: int where
  "RcodeSuccess = 0"

text \<open>
  \<^verbatim>\<open>dns.StringToType\<close> at the four keys the program uses (the type codes of RFC 1035,
  2782, 4398 and 6672); indexing a Go map at a missing key gives the zero value.
\<close>

definition StringToType :: "string \<Rightarrow> 16 word" where
  "StringToType qtype =
     (if qtype = ''SOA'' then 6
      else if qtype = ''SRV'' then 33
      else if qtype = ''CERT'' then 37
      else if qtype = ''DNAME'' then 39
      else 0)"

text \<open>
  The outside of the program: the system resolver and the DNS client. The network has a
  state of its own, of any type \<open>'n\<close>, which every call may read and change, so an
  answer may depend on everything that happened before. A call returns an error message
  or a value; the program never reads a value that comes with an error. \<open>Fqdn\<close> is
  \<^verbatim>\<open>dns.Fqdn\<close>, a pure function of the library.
\<close>

record 'n resolver =
  LookupHost :: "string \<Rightarrow> 'n \<Rightarrow> (string + string list) \<times> 'n"
  LookupCNAME :: "string \<Rightarrow> 'n \<Rightarrow> (string + string) \<times> 'n"
  LookupMX :: "string \<Rightarrow> 'n \<Rightarrow> (string + MX list) \<times> 'n"
  LookupNS :: "string \<Rightarrow> 'n \<Rightarrow> (string + NS list) \<times> 'n"
  LookupTXT :: "string \<Rightarrow> 'n \<Rightarrow> (string + string list) \<times> 'n"
  LookupAddr :: "string \<Rightarrow> 'n \<Rightarrow> (string + string list) \<times> 'n"
  Exchange :: "string \<Rightarrow> 16 word \<Rightarrow> string \<Rightarrow> 'n \<Rightarrow> (string + Msg) \<times> 'n"
  Fqdn :: "string \<Rightarrow> string"

subsection \<open>The state of a run\<close>

text \<open>
  A run changes the network, writes to standard output and standard error, and leaves a
  trace: one event on entry to each record-type lookup function (its name and argument)
  and one event for each call that goes to the resolver or to the DNS client.
\<close>

datatype event =
    Invoke string string
  | LookupHostCall string
  | LookupCNAMECall string
  | LookupMXCall string
  | LookupNSCall string
  | LookupTXTCall string
  | LookupAddrCall string
  | ExchangeCall string "16 word" string

fun isNetworkIO :: "event \<Rightarrow> bool" where
  "isNetworkIO (Invoke f a) = False"
| "isNetworkIO e = True"

fun invoked :: "event list \<Rightarrow> string list" where
  "invoked [] = []"
| "invoked (Invoke f a # es) = f # invoked es"
| "invoked (e # es) = invoked es"

record 'n world =
  net :: 'n
  trace :: "event list"
  stdout :: string
  stderr :: string

definition enter :: "string \<Rightarrow> string \<Rightarrow> 'n world \<Rightarrow> 'n world" where
  "enter f arg w = w\<lparr>trace := trace w @ [Invoke f arg]\<rparr>"

definition perform ::
  "event \<Rightarrow> ('n \<Rightarrow> (string + 'a) \<times> 'n) \<Rightarrow> 'n world \<Rightarrow> (error + 'a) \<times> 'n world" where
  "perform ev f w =
     (case f (net w) of
        (Inl m, n') \<Rightarrow> (Inl (LibError m), w\<lparr>net := n', trace := trace w @ [ev]\<rparr>)
      | (Inr v, n') \<Rightarrow> (Inr v, w\<lparr>net := n', trace := trace w @ [ev]\<rparr>))"

definition Printf :: "string \<Rightarrow> 'n world \<Rightarrow> 'n world" where
  "Printf s w = w\<lparr>stdout := stdout w @ s\<rparr>"

definition Fprintf_Stderr :: "string \<Rightarrow> 'n world \<Rightarrow> 'n world" where
  "Fprintf_Stderr s w = w\<lparr>stderr := stderr w @ s\<rparr>"

type_synonym 'n lookup = "string \<Rightarrow> 'n world \<Rightarrow> (error + string list) \<times> 'n world"

subsection \<open>The lookups through the system resolver\<close>

text \<open>
  Each \<^verbatim>\<open>for ... range\<close> loop that appends to \<^verbatim>\<open>result\<close> is a recursive function
  over the rest of the slice, with \<^verbatim>\<open>result\<close> as its last argument.
\<close>

fun lookupA_loop :: "string list \<Rightarrow> string list \<Rightarrow> string list" where
  "lookupA_loop [] result = result"
| "lookupA_loop (addr # addrs) result =
     (if To4 (ParseIP addr) \<noteq> None then lookupA_loop addrs (result @ [addr])
      else lookupA_loop addrs result)"

definition lookupA :: "'n resolver \<Rightarrow> 'n lookup" where
  "lookupA r domain w =
     (case perform (LookupHostCall domain) (LookupHost r domain) (enter ''lookupA'' domain w) of
        (Inl err, w') \<Rightarrow> (Inl err, w')
      | (Inr addrs, w') \<Rightarrow> (Inr (lookupA_loop addrs []), w'))"

fun lookupAAAA_loop :: "string list \<Rightarrow> string list \<Rightarrow> string list" where
  "lookupAAAA_loop [] result = result"
| "lookupAAAA_loop (addr # addrs) result =
     (if To16 (ParseIP addr) \<noteq> None \<and> To4 (ParseIP addr) = None
        then lookupAAAA_loop addrs (result @ [addr])
      else lookupAAAA_loop addrs result)"

definition lookupAAAA :: "'n resolver \<Rightarrow> 'n lookup" where
  "lookupAAAA r domain w =
     (case perform (LookupHostCall domain) (LookupHost r domain) (enter ''lookupAAAA'' domain w) of
        (Inl err, w') \<Rightarrow> (Inl err, w')
      | (Inr addrs, w') \<Rightarrow> (Inr (lookupAAAA_loop addrs []), w'))"

definition lookupCNAME :: "'n resolver \<Rightarrow> 'n lookup" where
  "lookupCNAME r domain w =
     (case perform (LookupCNAMECall domain) (LookupCNAME r domain) (enter ''lookupCNAME'' domain w) of
        (Inl err, w') \<Rightarrow> (Inl err, w')
      | (Inr cname, w') \<Rightarrow> (Inr [cname], w'))"

fun lookupMX_loop :: "MX list \<Rightarrow> string list \<Rightarrow> string list" where
  "lookupMX_loop [] result = result"
| "lookupMX_loop (mx # mxs) result =
     lookupMX_loop mxs (result @ [MX.Host mx @ '' (pref '' @ fmt_d (unat (Pref mx)) @ '')''])"

definition lookupMX :: "'n resolver \<Rightarrow> 'n lookup" where
  "lookupMX r domain w =
     (case perform (LookupMXCall domain) (LookupMX r domain) (enter ''lookupMX'' domain w) of
        (Inl err, w') \<Rightarrow> (Inl err, w')
      | (Inr mxs, w') \<Rightarrow> (Inr (lookupMX_loop mxs []), w'))"

fun lookupNS_loop :: "NS list \<Rightarrow> string list \<Rightarrow> string list" where
  "lookupNS_loop [] result = result"
| "lookupNS_loop (ns # nss) result = lookupNS_loop nss (result @ [NS.Host ns])"

definition lookupNS :: "'n resolver \<Rightarrow> 'n lookup" where
  "lookupNS r domain w =
     (case perform (LookupNSCall domain) (LookupNS r domain) (enter ''lookupNS'' domain w) of
        (Inl err, w') \<Rightarrow> (Inl err, w')
      | (Inr nss, w') \<Rightarrow> (Inr (lookupNS_loop nss []), w'))"

definition lookupTXT :: "'n resolver \<Rightarrow> 'n lookup" where
  "lookupTXT r domain w =
     (case perform (LookupTXTCall domain) (LookupTXT r domain) (enter ''lookupTXT'' domain w) of
        (Inl err, w') \<Rightarrow> (Inl err, w')
      | (Inr txts, w') \<Rightarrow> (Inr txts, w'))"

text \<open>
  \<^verbatim>\<open>lookupPTR\<close> checks its argument before it calls the resolver.
\<close>

definition lookupPTR :: "'n resolver \<Rightarrow> 'n lookup" where
  "lookupPTR r domain w =
     (let w0 = enter ''lookupPTR'' domain w; addr = domain in
      if ParseIP addr = None then (Inl (Errorf ''PTR lookup requires an IP address''), w0)
      else case perform (LookupAddrCall addr) (LookupAddr r addr) w0 of
             (Inl err, w') \<Rightarrow> (Inl err, w')
           | (Inr ptr, w') \<Rightarrow> (Inr ptr, w'))"

subsection \<open>The lookups through the DNS client\<close>

text \<open>
  \<^verbatim>\<open>dnsQuery\<close>: one exchange with the server \<^verbatim>\<open>8.8.8.8:53\<close>; the error of the exchange
  is checked first, the response code second.
\<close>

definition dnsQuery ::
  "'n resolver \<Rightarrow> string \<Rightarrow> string \<Rightarrow> 'n world \<Rightarrow> (error + RR list) \<times> 'n world" where
  "dnsQuery r domain qtype w =
     (case perform (ExchangeCall (Fqdn r domain) (StringToType qtype) ''8.8.8.8:53'')
             (Exchange r (Fqdn r domain) (StringToType qtype) ''8.8.8.8:53'') w of
        (Inl err, w') \<Rightarrow> (Inl err, w')
      | (Inr resp, w') \<Rightarrow>
          if Rcode resp \<noteq> RcodeSuccess
            then (Inl (Errorf (''invalid answer for '' @ domain @ '' type '' @ qtype)), w')
          else (Inr (Answer resp), w'))"

fun lookupSOA_loop :: "RR list \<Rightarrow> string list \<Rightarrow> string list" where
  "lookupSOA_loop [] result = result"
| "lookupSOA_loop (rr # rrs) result =
     (case rr of
        RR_SOA soa \<Rightarrow>
          lookupSOA_loop rrs
            (result @ [''NS: '' @ Ns soa @ '', Mbox: '' @ Mbox soa @ '', Serial: ''
                         @ fmt_d (unat (Serial soa))])
      | _ \<Rightarrow> lookupSOA_loop rrs result)"

definition lookupSOA :: "'n resolver \<Rightarrow> 'n lookup" where
  "lookupSOA r domain w =
     (case dnsQuery r domain ''SOA'' (enter ''lookupSOA'' domain w) of
        (Inl err, w') \<Rightarrow> (Inl err, w')
      | (Inr rrs, w') \<Rightarrow> (Inr (lookupSOA_loop rrs []), w'))"

fun lookupSRV_loop :: "RR list \<Rightarrow> string list \<Rightarrow> string list" where
  "lookupSRV_loop [] result = result"
| "lookupSRV_loop (rr # rrs) result =
     (case rr of
        RR_SRV srv \<Rightarrow>
          lookupSRV_loop rrs
            (result @ [SRV.Target srv @ '' '' @ fmt_d (unat (Port srv)) @ '' ''
                         @ fmt_d (unat (Priority srv)) @ '' '' @ fmt_d (unat (Weight srv))])
      | _ \<Rightarrow> lookupSRV_loop rrs result)"

definition lookupSRV :: "'n resolver \<Rightarrow> 'n lookup" where
  "lookupSRV r domain w =
     (case dnsQuery r domain ''SRV'' (enter ''lookupSRV'' domain w) of
        (Inl err, w') \<Rightarrow> (Inl err, w')
      | (Inr rrs, w') \<Rightarrow> (Inr (lookupSRV_loop rrs []), w'))"

fun lookupCERT_loop :: "RR list \<Rightarrow> string list \<Rightarrow> string list" where
  "lookupCERT_loop [] result = result"
| "lookupCERT_loop (rr # rrs) result =
     (case rr of
        RR_CERT cert \<Rightarrow>
          lookupCERT_loop rrs
            (result @ [''Type: '' @ fmt_d (unat (Type cert)) @ '', KeyTag: ''
                         @ fmt_d (unat (KeyTag cert)) @ '', Algorithm: ''
                         @ fmt_d (unat (Algorithm cert)) @ '', Certificate: ''
                         @ fmt_x (Certificate cert)])
      | _ \<Rightarrow> lookupCERT_loop rrs result)"

definition lookupCERT :: "'n resolver \<Rightarrow> 'n lookup" where
  "lookupCERT r domain w =
     (case dnsQuery r domain ''CERT'' (enter ''lookupCERT'' domain w) of
        (Inl err, w') \<Rightarrow> (Inl err, w')
      | (Inr rrs, w') \<Rightarrow> (Inr (lookupCERT_loop rrs []), w'))"

fun lookupDNAME_loop :: "RR list \<Rightarrow> string list \<Rightarrow> string list" where
  "lookupDNAME_loop [] result = result"
| "lookupDNAME_loop (rr # rrs) result =
     (case rr of
        RR_DNAME dname \<Rightarrow> lookupDNAME_loop rrs (result @ [DNAME.Target dname])
      | _ \<Rightarrow> lookupDNAME_loop rrs result)"

definition lookupDNAME :: "'n resolver \<Rightarrow> 'n lookup" where
  "lookupDNAME r domain w =
     (case dnsQuery r domain ''DNAME'' (enter ''lookupDNAME'' domain w) of
        (Inl err, w') \<Rightarrow> (Inl err, w')
      | (Inr rrs, w') \<Rightarrow> (Inr (lookupDNAME_loop rrs []), w'))"

subsection \<open>The dispatcher: main\<close>

text \<open>The table \<^verbatim>\<open>lookupFuncs\<close> of \<^verbatim>\<open>main\<close>: pairs of \<^verbatim>\<open>typeName\<close> and \<^verbatim>\<open>lookup\<close>.\<close>

definition lookupFuncs :: "'n resolver \<Rightarrow> (string \<times> 'n lookup) list" where
  "lookupFuncs r =
     [(''A'', lookupA r),
      (''AAAA'', lookupAAAA r),
      (''CNAME'', lookupCNAME r),
      (''MX'', lookupMX r),
      (''NS'', lookupNS r),
      (''TXT'', lookupTXT r),
      (''SOA'', lookupSOA r),
      (''SRV'', lookupSRV r),
      (''CERT'', lookupCERT r),
      (''DNAME'', lookupDNAME r)]"

text \<open>\<^verbatim>\<open>for _, rec := range records { fmt.Printf("  %s\n", rec) }\<close>\<close>

fun print_records :: "string list \<Rightarrow> 'n world \<Rightarrow> 'n world" where
  "print_records [] w = w"
| "print_records (rec # records) w =
     print_records records (Printf (''  '' @ rec @ ''\<newline>'') w)"

text \<open>
  The loop over the table. After an error the loop goes on with the next entry
  (\<^verbatim>\<open>continue\<close>); a lookup without records prints nothing.
\<close>

fun main_loop :: "(string \<times> 'n lookup) list \<Rightarrow> string \<Rightarrow> 'n world \<Rightarrow> 'n world" where
  "main_loop [] target w = w"
| "main_loop ((typeName, lookup) # lfs) target w =
     (case lookup target w of
        (Inl err, w1) \<Rightarrow>
          main_loop lfs target (Printf (typeName @ '': error: '' @ Error err @ ''\<newline>'') w1)
      | (Inr records, w1) \<Rightarrow>
          if length records > 0
            then main_loop lfs target (print_records records (Printf (typeName @ '':\<newline>'') w1))
          else main_loop lfs target w1)"

text \<open>
  \<^verbatim>\<open>main\<close>, given \<^verbatim>\<open>os.Args\<close> (the program name and the arguments). The result is the
  final state and the exit status: 1 from \<^verbatim>\<open>os.Exit(1)\<close>, 0 when \<^verbatim>\<open>main\<close> returns.
\<close>

definition main :: "'n resolver \<Rightarrow> string list \<Rightarrow> 'n world \<Rightarrow> 'n world \<times> int" where
  "main r Args w =
     (if length Args \<noteq> 2
        then (Fprintf_Stderr ''Usage: godns <domain|ip>\<newline>'' w, 1)
      else
        (let target = Args ! 1;
             isIP = (ParseIP target \<noteq> None);
             w0 = Printf (''DNS records for '' @ target @ '':\<newline>\<newline>'') w
         in if isIP then
              (case lookupPTR r target w0 of
                 (Inl err, w1) \<Rightarrow>
                   (Printf (''PTR: error: '' @ Error err @ ''\<newline>'') w1, 0)
               | (Inr records, w1) \<Rightarrow>
                   if length records > 0
                     then (print_records records (Printf ''PTR:\<newline>'' w1), 0)
                   else (w1, 0))
            else (main_loop (lookupFuncs r) target w0, 0)))"

subsection \<open>The presentation contract of the specification\<close>

text \<open>
  What the specification says the presenter prints for one record type, following its
  words: an error gives the line \<open><label>: error: <message>\<close>; one or more results give
  the line \<open><label>:\<close> and then each result on its own line, indented by two spaces;
  no result and no error give nothing. The code is compared with it below.
\<close>

fun presenter :: "string \<Rightarrow> error + string list \<Rightarrow> string" where
  "presenter label (Inl err) = label @ '': error: '' @ Error err @ ''\<newline>''"
| "presenter label (Inr []) = []"
| "presenter label (Inr results) =
     label @ '':\<newline>'' @ concat (map (\<lambda>result. ''  '' @ result @ ''\<newline>'') results)"

subsection \<open>Two concrete networks\<close>

text \<open>A network without state on which every call fails.\<close>

definition failing_resolver :: "unit resolver" where
  "failing_resolver =
     \<lparr> LookupHost = (\<lambda>host n. (Inl ''no such host'', ())),
       LookupCNAME = (\<lambda>host n. (Inl ''no such host'', ())),
       LookupMX = (\<lambda>name n. (Inl ''no such host'', ())),
       LookupNS = (\<lambda>name n. (Inl ''no such host'', ())),
       LookupTXT = (\<lambda>name n. (Inl ''no such host'', ())),
       LookupAddr = (\<lambda>addr n. (Inl ''no such host'', ())),
       Exchange = (\<lambda>name qtype server n. (Inl ''i/o timeout'', ())),
       Fqdn = (\<lambda>s. s @ ''.'') \<rparr>"

text \<open>
  A network whose state counts the calls made so far, and which answers the host lookup
  with four addresses, the reverse lookup with two names, and every exchange with one
  SOA record among records of other types.
\<close>

definition answering_resolver :: "nat resolver" where
  "answering_resolver =
     \<lparr> LookupHost = (\<lambda>host n.
         (Inr [''93.184.216.34'', ''2606:2800:220:1:248:1893:25c8:1946'',
               ''::ffff:192.0.2.1'', ''not-an-address''], Suc n)),
       LookupCNAME = (\<lambda>host n. (Inr (host @ ''.''), Suc n)),
       LookupMX = (\<lambda>name n. (Inr [\<lparr>MX.Host = ''mail.example.com'', Pref = 10\<rparr>], Suc n)),
       LookupNS = (\<lambda>name n. (Inr [], Suc n)),
       LookupTXT = (\<lambda>name n. (Inl ''no such host'', Suc n)),
       LookupAddr = (\<lambda>addr n. (Inr [''dns.google.'', ''dns2.google.''], Suc n)),
       Exchange = (\<lambda>name qtype server n.
         (Inr \<lparr>Rcode = 0,
               Answer = [RR_other 5,
                         RR_SOA \<lparr>Ns = ''ns1.example.com'', Mbox = ''admin.example.com'',
                                 Serial = 2024010100\<rparr>,
                         RR_DNAME \<lparr>DNAME.Target = ''example.net.''\<rparr>]\<rparr>, Suc n)),
       Fqdn = (\<lambda>s. s @ ''.'') \<rparr>"

text \<open>A network that answers every exchange with a refusal (response code 5).\<close>

definition refusing_resolver :: "unit resolver" where
  "refusing_resolver =
     failing_resolver\<lparr> Exchange := (\<lambda>name qtype server n. (Inr \<lparr>Rcode = 5, Answer = []\<rparr>, ())) \<rparr>"

definition start :: "'n \<Rightarrow> 'n world" where
  "start n = \<lparr> net = n, trace = [], stdout = [], stderr = [] \<rparr>"

section \<open>Properties\<close>

subsection \<open>Output and trace of the pieces\<close>

lemma trace_Printf [simp]: "trace (Printf s w) = trace w" by (simp add: Printf_def)
lemma net_Printf [simp]: "net (Printf s w) = net w" by (simp add: Printf_def)
lemma trace_print_records [simp]: "trace (print_records rs w) = trace w"
  by (induction rs arbitrary: w) simp_all
lemma stdout_print_records:
  "print_records rs w = Printf (concat (map (\<lambda>result. ''  '' @ result @ ''\<newline>'') rs)) w"
  by (induction rs arbitrary: w) (simp_all add: Printf_def)

lemma trace_perform: "trace (snd (perform ev f w)) = trace w @ [ev]"
  by (simp add: perform_def split: prod.splits sum.splits)

lemma lookupA_loop_filter:
  "lookupA_loop addrs result = result @ filter (\<lambda>a. To4 (ParseIP a) \<noteq> None) addrs"
  by (induction addrs arbitrary: result) simp_all

lemma lookupAAAA_loop_filter:
  "lookupAAAA_loop addrs result =
     result @ filter (\<lambda>a. To16 (ParseIP a) \<noteq> None \<and> To4 (ParseIP a) = None) addrs"
  by (induction addrs arbitrary: result) simp_all

lemma trace_lookupA: "trace (snd (lookupA r d w)) = trace w @ [Invoke ''lookupA'' d, LookupHostCall d]"
  by (simp add: lookupA_def perform_def enter_def split: prod.splits sum.splits)
lemma trace_lookupAAAA: "trace (snd (lookupAAAA r d w)) = trace w @ [Invoke ''lookupAAAA'' d, LookupHostCall d]"
  by (simp add: lookupAAAA_def perform_def enter_def split: prod.splits sum.splits)
lemma trace_lookupCNAME: "trace (snd (lookupCNAME r d w)) = trace w @ [Invoke ''lookupCNAME'' d, LookupCNAMECall d]"
  by (simp add: lookupCNAME_def perform_def enter_def split: prod.splits sum.splits)
lemma trace_lookupMX: "trace (snd (lookupMX r d w)) = trace w @ [Invoke ''lookupMX'' d, LookupMXCall d]"
  by (simp add: lookupMX_def perform_def enter_def split: prod.splits sum.splits)
lemma trace_lookupNS: "trace (snd (lookupNS r d w)) = trace w @ [Invoke ''lookupNS'' d, LookupNSCall d]"
  by (simp add: lookupNS_def perform_def enter_def split: prod.splits sum.splits)
lemma trace_lookupTXT: "trace (snd (lookupTXT r d w)) = trace w @ [Invoke ''lookupTXT'' d, LookupTXTCall d]"
  by (simp add: lookupTXT_def perform_def enter_def split: prod.splits sum.splits)
lemma trace_dnsQuery: "trace (snd (dnsQuery r d q w)) = trace w @ [ExchangeCall (Fqdn r d) (StringToType q) ''8.8.8.8:53'']"
  by (simp add: dnsQuery_def perform_def split: prod.splits sum.splits)
lemma trace_lookupSOA: "trace (snd (lookupSOA r d w)) = trace w @ [Invoke ''lookupSOA'' d, ExchangeCall (Fqdn r d) 6 ''8.8.8.8:53'']"
  using trace_dnsQuery [of r d "''SOA''" "enter ''lookupSOA'' d w"]
  by (auto simp: lookupSOA_def enter_def StringToType_def split: prod.splits sum.splits)
lemma trace_lookupSRV: "trace (snd (lookupSRV r d w)) = trace w @ [Invoke ''lookupSRV'' d, ExchangeCall (Fqdn r d) 33 ''8.8.8.8:53'']"
  using trace_dnsQuery [of r d "''SRV''" "enter ''lookupSRV'' d w"]
  by (auto simp: lookupSRV_def enter_def StringToType_def split: prod.splits sum.splits)
lemma trace_lookupCERT: "trace (snd (lookupCERT r d w)) = trace w @ [Invoke ''lookupCERT'' d, ExchangeCall (Fqdn r d) 37 ''8.8.8.8:53'']"
  using trace_dnsQuery [of r d "''CERT''" "enter ''lookupCERT'' d w"]
  by (auto simp: lookupCERT_def enter_def StringToType_def split: prod.splits sum.splits)
lemma trace_lookupDNAME: "trace (snd (lookupDNAME r d w)) = trace w @ [Invoke ''lookupDNAME'' d, ExchangeCall (Fqdn r d) 39 ''8.8.8.8:53'']"
  using trace_dnsQuery [of r d "''DNAME''" "enter ''lookupDNAME'' d w"]
  by (auto simp: lookupDNAME_def enter_def StringToType_def split: prod.splits sum.splits)

lemma main_loop_step:
  "lookup target w = (outcome, w1) \<Longrightarrow>
   main_loop ((label, lookup) # lfs) target w = main_loop lfs target (Printf (presenter label outcome) w1)"
  by (cases outcome; cases "projr outcome")
     (auto simp: Printf_def stdout_print_records)

lemma main_loop_trace:
  "list_all2 (\<lambda>lf es. \<forall>w. trace (snd (snd lf target w)) = trace w @ es) tbl ess \<Longrightarrow>
   trace (main_loop tbl target w) = trace w @ concat ess"
proof (induction tbl ess arbitrary: w rule: list_all2_induct)
  case Nil
  then show ?case by simp
next
  case (Cons lf tbl es ess)
  obtain label lookup where lf: "lf = (label, lookup)" by (cases lf)
  obtain outcome w1 where st: "lookup target w = (outcome, w1)" by (cases "lookup target w")
  have "trace w1 = trace w @ es" using Cons.hyps(1) lf st
    by (metis snd_conv)
  then show ?case
    using Cons.IH [of "Printf (presenter label outcome) w1"] main_loop_step [of lookup target w outcome w1 label tbl] st
    by (simp add: lf)
qed

subsection \<open>Argument count and exit status\<close>

text \<open>
  Claim C7. When \<^verbatim>\<open>os.Args\<close> does not have exactly two entries (the program name and one
  argument), \<^verbatim>\<open>main\<close> appends the usage message to standard error and exits with status
  1; nothing else changes, so the trace stays as it was (no lookup is entered, no call
  reaches the network) and nothing is written to standard output.
\<close>

theorem C7_usage_exit_1:
  "length Args \<noteq> 2 \<Longrightarrow>
   main r Args w = (w\<lparr>stderr := stderr w @ ''Usage: godns <domain|ip>\<newline>''\<rparr>, 1)
   \<and> trace (fst (main r Args w)) = trace w
   \<and> net (fst (main r Args w)) = net w
   \<and> stdout (fst (main r Args w)) = stdout w"
  by (simp add: main_def Fprintf_Stderr_def)

theorem C7_usage_exit_1_witness:
  "length [''godns'', ''example.com'', ''extra''] \<noteq> 2
   \<and> main answering_resolver [''godns'', ''example.com'', ''extra''] (start 0)
       = (\<lparr>net = 0, trace = [], stdout = [], stderr = ''Usage: godns <domain|ip>\<newline>''\<rparr>, 1)
   \<and> length [''godns''] \<noteq> 2
   \<and> snd (main answering_resolver [''godns''] (start 0)) = 1"
  using C7_usage_exit_1 [of "[''godns'', ''example.com'', ''extra'']" answering_resolver "start 0"]
        C7_usage_exit_1 [of "[''godns'']" answering_resolver "start 0"]
  by (simp add: start_def)

subsection \<open>The two paths of the dispatcher\<close>

lemma main_domain_trace:
  assumes len: "length Args = 2" and dom: "ParseIP (Args ! 1) = None"
  shows "trace (fst (main r Args w)) =
       trace w @
       [Invoke ''lookupA'' (Args ! 1), LookupHostCall (Args ! 1),
        Invoke ''lookupAAAA'' (Args ! 1), LookupHostCall (Args ! 1),
        Invoke ''lookupCNAME'' (Args ! 1), LookupCNAMECall (Args ! 1),
        Invoke ''lookupMX'' (Args ! 1), LookupMXCall (Args ! 1),
        Invoke ''lookupNS'' (Args ! 1), LookupNSCall (Args ! 1),
        Invoke ''lookupTXT'' (Args ! 1), LookupTXTCall (Args ! 1),
        Invoke ''lookupSOA'' (Args ! 1), ExchangeCall (Fqdn r (Args ! 1)) 6 ''8.8.8.8:53'',
        Invoke ''lookupSRV'' (Args ! 1), ExchangeCall (Fqdn r (Args ! 1)) 33 ''8.8.8.8:53'',
        Invoke ''lookupCERT'' (Args ! 1), ExchangeCall (Fqdn r (Args ! 1)) 37 ''8.8.8.8:53'',
        Invoke ''lookupDNAME'' (Args ! 1), ExchangeCall (Fqdn r (Args ! 1)) 39 ''8.8.8.8:53'']"
proof -
  define t where "t = Args ! 1"
  define ess where "ess =
    [[Invoke ''lookupA'' t, LookupHostCall t],
     [Invoke ''lookupAAAA'' t, LookupHostCall t],
     [Invoke ''lookupCNAME'' t, LookupCNAMECall t],
     [Invoke ''lookupMX'' t, LookupMXCall t],
     [Invoke ''lookupNS'' t, LookupNSCall t],
     [Invoke ''lookupTXT'' t, LookupTXTCall t],
     [Invoke ''lookupSOA'' t, ExchangeCall (Fqdn r t) 6 ''8.8.8.8:53''],
     [Invoke ''lookupSRV'' t, ExchangeCall (Fqdn r t) 33 ''8.8.8.8:53''],
     [Invoke ''lookupCERT'' t, ExchangeCall (Fqdn r t) 37 ''8.8.8.8:53''],
     [Invoke ''lookupDNAME'' t, ExchangeCall (Fqdn r t) 39 ''8.8.8.8:53'']]"
  have tbl: "list_all2 (\<lambda>lf es. \<forall>w. trace (snd (snd lf t w)) = trace w @ es) (lookupFuncs r) ess"
    by (simp add: lookupFuncs_def ess_def trace_lookupA trace_lookupAAAA trace_lookupCNAME
        trace_lookupMX trace_lookupNS trace_lookupTXT trace_lookupSOA trace_lookupSRV
        trace_lookupCERT trace_lookupDNAME)
  have "fst (main r Args w) =
        main_loop (lookupFuncs r) t (Printf (''DNS records for '' @ t @ '':\<newline>\<newline>'') w)"
    using len dom by (simp add: main_def t_def Let_def)
  then have "trace (fst (main r Args w)) = trace w @ concat ess"
    using main_loop_trace [OF tbl] by simp
  then show ?thesis by (simp add: ess_def t_def)
qed

lemma trace_lookupPTR_ip:
  "ParseIP s \<noteq> None \<Longrightarrow>
   trace (snd (lookupPTR r s w)) = trace w @ [Invoke ''lookupPTR'' s, LookupAddrCall s]"
  by (simp add: lookupPTR_def Let_def perform_def enter_def split: prod.splits sum.splits)

lemma main_ip_trace:
  assumes "length Args = 2" and "ParseIP (Args ! 1) \<noteq> None"
  shows "trace (fst (main r Args w)) =
         trace w @ [Invoke ''lookupPTR'' (Args ! 1), LookupAddrCall (Args ! 1)]"
proof -
  define w0 where "w0 = Printf (''DNS records for '' @ Args ! 1 @ '':\<newline>\<newline>'') w"
  obtain outcome w1 where st: "lookupPTR r (Args ! 1) w0 = (outcome, w1)"
    by (cases "lookupPTR r (Args ! 1) w0")
  have "trace w1 = trace w @ [Invoke ''lookupPTR'' (Args ! 1), LookupAddrCall (Args ! 1)]"
    using trace_lookupPTR_ip [OF assms(2), of r w0] st by (simp add: w0_def)
  moreover have "trace (fst (main r Args w)) = trace w1"
    using assms st by (cases outcome) (simp_all add: main_def Let_def w0_def)
  ultimately show ?thesis by simp
qed

lemma main_status:
  "length Args = 2 \<Longrightarrow> snd (main r Args w) = 0"
  by (simp add: main_def Let_def split: prod.splits sum.splits)

text \<open>
  Claim C8. With exactly one argument \<^verbatim>\<open>main\<close> returns, which is exit status 0, and it
  does so after every applicable lookup has run: in the final state the trace holds the
  reverse lookup for an IP literal, and all ten lookups of the table, each with its call
  to the network, for any other target. The resolver is arbitrary, so this covers the
  network on which every lookup fails.
\<close>

theorem C8_exit_0:
  "length Args = 2 \<Longrightarrow>
   snd (main r Args w) = 0
   \<and> (ParseIP (Args ! 1) \<noteq> None \<longrightarrow>
        trace (fst (main r Args w)) =
          trace w @ [Invoke ''lookupPTR'' (Args ! 1), LookupAddrCall (Args ! 1)])
   \<and> (ParseIP (Args ! 1) = None \<longrightarrow>
        trace (fst (main r Args w)) =
          trace w @
           [Invoke ''lookupA'' (Args ! 1), LookupHostCall (Args ! 1),
            Invoke ''lookupAAAA'' (Args ! 1), LookupHostCall (Args ! 1),
            Invoke ''lookupCNAME'' (Args ! 1), LookupCNAMECall (Args ! 1),
            Invoke ''lookupMX'' (Args ! 1), LookupMXCall (Args ! 1),
            Invoke ''lookupNS'' (Args ! 1), LookupNSCall (Args ! 1),
            Invoke ''lookupTXT'' (Args ! 1), LookupTXTCall (Args ! 1),
            Invoke ''lookupSOA'' (Args ! 1), ExchangeCall (Fqdn r (Args ! 1)) 6 ''8.8.8.8:53'',
            Invoke ''lookupSRV'' (Args ! 1), ExchangeCall (Fqdn r (Args ! 1)) 33 ''8.8.8.8:53'',
            Invoke ''lookupCERT'' (Args ! 1), ExchangeCall (Fqdn r (Args ! 1)) 37 ''8.8.8.8:53'',
            Invoke ''lookupDNAME'' (Args ! 1), ExchangeCall (Fqdn r (Args ! 1)) 39 ''8.8.8.8:53''])"
proof -
  assume len: "length Args = 2"
  have status: "snd (main r Args w) = 0"
    using len by (rule main_status)
  have ip: "ParseIP (Args ! 1) \<noteq> None \<longrightarrow>
        trace (fst (main r Args w)) =
          trace w @ [Invoke ''lookupPTR'' (Args ! 1), LookupAddrCall (Args ! 1)]"
    using main_ip_trace [OF len, of r w] by blast
  have dom: "ParseIP (Args ! 1) = None \<longrightarrow>
        trace (fst (main r Args w)) =
          trace w @
           [Invoke ''lookupA'' (Args ! 1), LookupHostCall (Args ! 1),
            Invoke ''lookupAAAA'' (Args ! 1), LookupHostCall (Args ! 1),
            Invoke ''lookupCNAME'' (Args ! 1), LookupCNAMECall (Args ! 1),
            Invoke ''lookupMX'' (Args ! 1), LookupMXCall (Args ! 1),
            Invoke ''lookupNS'' (Args ! 1), LookupNSCall (Args ! 1),
            Invoke ''lookupTXT'' (Args ! 1), LookupTXTCall (Args ! 1),
            Invoke ''lookupSOA'' (Args ! 1), ExchangeCall (Fqdn r (Args ! 1)) 6 ''8.8.8.8:53'',
            Invoke ''lookupSRV'' (Args ! 1), ExchangeCall (Fqdn r (Args ! 1)) 33 ''8.8.8.8:53'',
            Invoke ''lookupCERT'' (Args ! 1), ExchangeCall (Fqdn r (Args ! 1)) 37 ''8.8.8.8:53'',
            Invoke ''lookupDNAME'' (Args ! 1), ExchangeCall (Fqdn r (Args ! 1)) 39 ''8.8.8.8:53'']"
    using main_domain_trace [OF len, of r w] by blast
  from status ip dom show ?thesis by blast
qed

theorem C8_exit_0_witness:
  "length [''godns'', ''example.com''] = 2
   \<and> ParseIP ([''godns'', ''example.com''] ! 1) = None
   \<and> snd (main failing_resolver [''godns'', ''example.com''] (start ())) = 0
   \<and> trace (fst (main failing_resolver [''godns'', ''example.com''] (start ()))) =
       [Invoke ''lookupA'' ''example.com'', LookupHostCall ''example.com'',
        Invoke ''lookupAAAA'' ''example.com'', LookupHostCall ''example.com'',
        Invoke ''lookupCNAME'' ''example.com'', LookupCNAMECall ''example.com'',
        Invoke ''lookupMX'' ''example.com'', LookupMXCall ''example.com'',
        Invoke ''lookupNS'' ''example.com'', LookupNSCall ''example.com'',
        Invoke ''lookupTXT'' ''example.com'', LookupTXTCall ''example.com'',
        Invoke ''lookupSOA'' ''example.com'', ExchangeCall ''example.com.'' 6 ''8.8.8.8:53'',
        Invoke ''lookupSRV'' ''example.com'', ExchangeCall ''example.com.'' 33 ''8.8.8.8:53'',
        Invoke ''lookupCERT'' ''example.com'', ExchangeCall ''example.com.'' 37 ''8.8.8.8:53'',
        Invoke ''lookupDNAME'' ''example.com'', ExchangeCall ''example.com.'' 39 ''8.8.8.8:53'']
   \<and> length [''godns'', ''8.8.8.8''] = 2
   \<and> ParseIP ([''godns'', ''8.8.8.8''] ! 1) \<noteq> None
   \<and> snd (main failing_resolver [''godns'', ''8.8.8.8''] (start ())) = 0
   \<and> trace (fst (main failing_resolver [''godns'', ''8.8.8.8''] (start ()))) =
       [Invoke ''lookupPTR'' ''8.8.8.8'', LookupAddrCall ''8.8.8.8'']"
proof -
  have len1: "length [''godns'', ''example.com''] = 2" by simp
  have dom: "ParseIP ([''godns'', ''example.com''] ! 1) = None" by code_simp
  have len2: "length [''godns'', ''8.8.8.8''] = 2" by simp
  have ip: "ParseIP ([''godns'', ''8.8.8.8''] ! 1) \<noteq> None" by code_simp
  show ?thesis
    using C8_exit_0 [OF len1, of failing_resolver "start ()"]
          C8_exit_0 [OF len2, of failing_resolver "start ()"] len1 dom len2 ip
    by (simp add: start_def failing_resolver_def)
qed

text \<open>
  Claim C1. For a target that is not an IP literal, the table holds the ten record types
  in the order A, AAAA, CNAME, MX, NS, TXT, SOA, SRV, CERT, DNAME, and the run enters
  the ten lookup functions in exactly this order, each making its one call to the
  network. The resolver is arbitrary: whatever a lookup returns, an error included, the
  lookups after it still run.
\<close>

theorem C1_domain_lookups_in_order:
  "length Args = 2 \<Longrightarrow> ParseIP (Args ! 1) = None \<Longrightarrow>
   map fst (lookupFuncs r) =
     [''A'', ''AAAA'', ''CNAME'', ''MX'', ''NS'', ''TXT'', ''SOA'', ''SRV'', ''CERT'', ''DNAME'']
   \<and> trace (fst (main r Args w)) =
       trace w @
       [Invoke ''lookupA'' (Args ! 1), LookupHostCall (Args ! 1),
        Invoke ''lookupAAAA'' (Args ! 1), LookupHostCall (Args ! 1),
        Invoke ''lookupCNAME'' (Args ! 1), LookupCNAMECall (Args ! 1),
        Invoke ''lookupMX'' (Args ! 1), LookupMXCall (Args ! 1),
        Invoke ''lookupNS'' (Args ! 1), LookupNSCall (Args ! 1),
        Invoke ''lookupTXT'' (Args ! 1), LookupTXTCall (Args ! 1),
        Invoke ''lookupSOA'' (Args ! 1), ExchangeCall (Fqdn r (Args ! 1)) 6 ''8.8.8.8:53'',
        Invoke ''lookupSRV'' (Args ! 1), ExchangeCall (Fqdn r (Args ! 1)) 33 ''8.8.8.8:53'',
        Invoke ''lookupCERT'' (Args ! 1), ExchangeCall (Fqdn r (Args ! 1)) 37 ''8.8.8.8:53'',
        Invoke ''lookupDNAME'' (Args ! 1), ExchangeCall (Fqdn r (Args ! 1)) 39 ''8.8.8.8:53'']"
  using main_domain_trace [of Args r w] by (simp add: lookupFuncs_def)

theorem C1_domain_lookups_in_order_witness:
  "length [''godns'', ''example.com''] = 2 \<and> ParseIP ([''godns'', ''example.com''] ! 1) = None
   \<and> trace (fst (main failing_resolver [''godns'', ''example.com''] (start ()))) =
       [Invoke ''lookupA'' ''example.com'', LookupHostCall ''example.com'',
        Invoke ''lookupAAAA'' ''example.com'', LookupHostCall ''example.com'',
        Invoke ''lookupCNAME'' ''example.com'', LookupCNAMECall ''example.com'',
        Invoke ''lookupMX'' ''example.com'', LookupMXCall ''example.com'',
        Invoke ''lookupNS'' ''example.com'', LookupNSCall ''example.com'',
        Invoke ''lookupTXT'' ''example.com'', LookupTXTCall ''example.com'',
        Invoke ''lookupSOA'' ''example.com'', ExchangeCall ''example.com.'' 6 ''8.8.8.8:53'',
        Invoke ''lookupSRV'' ''example.com'', ExchangeCall ''example.com.'' 33 ''8.8.8.8:53'',
        Invoke ''lookupCERT'' ''example.com'', ExchangeCall ''example.com.'' 37 ''8.8.8.8:53'',
        Invoke ''lookupDNAME'' ''example.com'', ExchangeCall ''example.com.'' 39 ''8.8.8.8:53'']"
proof -
  have len: "length [''godns'', ''example.com''] = 2" by simp
  have dom: "ParseIP ([''godns'', ''example.com''] ! 1) = None" by code_simp
  show ?thesis
    using C1_domain_lookups_in_order [OF len dom, of failing_resolver "start ()"] len dom
    by (simp add: start_def failing_resolver_def)
qed

text \<open>
  Claim C2. With exactly one argument, one of two paths runs. If the target parses as an
  IP literal, the only lookup function entered is \<^verbatim>\<open>lookupPTR\<close> and the only call to the
  network is the reverse lookup; otherwise the ten lookups of the table are entered,
  \<^verbatim>\<open>lookupPTR\<close> is not, and no reverse lookup reaches the network. In both cases no lookup
  function is entered twice.
\<close>

theorem C2_one_classification_path:
  "length Args = 2 \<Longrightarrow>
   \<exists>es. trace (fst (main r Args w)) = trace w @ es
      \<and> distinct (invoked es)
      \<and> (if ParseIP (Args ! 1) \<noteq> None
         then invoked es = [''lookupPTR'']
              \<and> filter isNetworkIO es = [LookupAddrCall (Args ! 1)]
         else invoked es =
                [''lookupA'', ''lookupAAAA'', ''lookupCNAME'', ''lookupMX'', ''lookupNS'',
                 ''lookupTXT'', ''lookupSOA'', ''lookupSRV'', ''lookupCERT'', ''lookupDNAME'']
              \<and> ''lookupPTR'' \<notin> set (invoked es)
              \<and> (\<forall>addr. LookupAddrCall addr \<notin> set es))"
proof (cases "ParseIP (Args ! 1) = None")
  case True
  assume len: "length Args = 2"
  show ?thesis using main_domain_trace [OF len True, of r w] True
    by (intro exI [of _ "[Invoke ''lookupA'' (Args ! 1), LookupHostCall (Args ! 1),
        Invoke ''lookupAAAA'' (Args ! 1), LookupHostCall (Args ! 1),
        Invoke ''lookupCNAME'' (Args ! 1), LookupCNAMECall (Args ! 1),
        Invoke ''lookupMX'' (Args ! 1), LookupMXCall (Args ! 1),
        Invoke ''lookupNS'' (Args ! 1), LookupNSCall (Args ! 1),
        Invoke ''lookupTXT'' (Args ! 1), LookupTXTCall (Args ! 1),
        Invoke ''lookupSOA'' (Args ! 1), ExchangeCall (Fqdn r (Args ! 1)) 6 ''8.8.8.8:53'',
        Invoke ''lookupSRV'' (Args ! 1), ExchangeCall (Fqdn r (Args ! 1)) 33 ''8.8.8.8:53'',
        Invoke ''lookupCERT'' (Args ! 1), ExchangeCall (Fqdn r (Args ! 1)) 37 ''8.8.8.8:53'',
        Invoke ''lookupDNAME'' (Args ! 1), ExchangeCall (Fqdn r (Args ! 1)) 39 ''8.8.8.8:53'']"]) simp
next
  case False
  assume len: "length Args = 2"
  show ?thesis using main_ip_trace [OF len False, of r w] False
    by (intro exI [of _ "[Invoke ''lookupPTR'' (Args ! 1), LookupAddrCall (Args ! 1)]"]) simp
qed

theorem C2_one_classification_path_witness:
  "length [''godns'', ''8.8.8.8''] = 2 \<and> ParseIP ([''godns'', ''8.8.8.8''] ! 1) \<noteq> None
   \<and> invoked (trace (fst (main answering_resolver [''godns'', ''8.8.8.8''] (start 0))))
       = [''lookupPTR'']
   \<and> length [''godns'', ''example.com''] = 2 \<and> ParseIP ([''godns'', ''example.com''] ! 1) = None
   \<and> invoked (trace (fst (main answering_resolver [''godns'', ''example.com''] (start 0))))
       = [''lookupA'', ''lookupAAAA'', ''lookupCNAME'', ''lookupMX'', ''lookupNS'',
          ''lookupTXT'', ''lookupSOA'', ''lookupSRV'', ''lookupCERT'', ''lookupDNAME'']"
proof -
  have len1: "length [''godns'', ''8.8.8.8''] = 2" by simp
  have ip: "ParseIP ([''godns'', ''8.8.8.8''] ! 1) \<noteq> None" by code_simp
  have len2: "length [''godns'', ''example.com''] = 2" by simp
  have dom: "ParseIP ([''godns'', ''example.com''] ! 1) = None" by code_simp
  have one: "invoked (trace (fst (main answering_resolver [''godns'', ''8.8.8.8''] (start 0))))
       = [''lookupPTR'']"
    using C2_one_classification_path [OF len1, of answering_resolver "start 0"] ip
    by (auto simp: start_def)
  have ten: "invoked (trace (fst (main answering_resolver [''godns'', ''example.com''] (start 0))))
       = [''lookupA'', ''lookupAAAA'', ''lookupCNAME'', ''lookupMX'', ''lookupNS'',
          ''lookupTXT'', ''lookupSOA'', ''lookupSRV'', ''lookupCERT'', ''lookupDNAME'']"
    using C2_one_classification_path [OF len2, of answering_resolver "start 0"] dom
    by (auto simp: start_def)
  show ?thesis using len1 ip one len2 dom ten by simp
qed

subsection \<open>The reverse lookup\<close>

text \<open>
  Claim C3. On a string that does not parse as an IP literal, \<^verbatim>\<open>lookupPTR\<close> returns the
  validation error and no results; the state of the network is untouched and no call to
  the network is added to the trace. On a string that parses, it makes exactly one
  reverse lookup and hands back what the resolver returned: the host names, unchanged
  and in the same order, or the resolver's error.
\<close>

theorem C3_lookupPTR:
  "(ParseIP s = None \<longrightarrow>
      lookupPTR r s w = (Inl (Errorf ''PTR lookup requires an IP address''), enter ''lookupPTR'' s w)
      \<and> net (snd (lookupPTR r s w)) = net w
      \<and> filter isNetworkIO (trace (snd (lookupPTR r s w))) = filter isNetworkIO (trace w))
   \<and> (ParseIP s \<noteq> None \<longrightarrow>
      trace (snd (lookupPTR r s w)) = trace w @ [Invoke ''lookupPTR'' s, LookupAddrCall s]
      \<and> net (snd (lookupPTR r s w)) = snd (LookupAddr r s (net w))
      \<and> (\<forall>names. fst (LookupAddr r s (net w)) = Inr names \<longrightarrow> fst (lookupPTR r s w) = Inr names)
      \<and> (\<forall>m. fst (LookupAddr r s (net w)) = Inl m \<longrightarrow> fst (lookupPTR r s w) = Inl (LibError m)))"
  by (cases "LookupAddr r s (net w)")
     (auto simp: lookupPTR_def Let_def perform_def enter_def split: prod.splits sum.splits)

theorem C3_lookupPTR_witness:
  "ParseIP ''example.com'' = None
   \<and> lookupPTR answering_resolver ''example.com'' (start 0)
       = (Inl (Errorf ''PTR lookup requires an IP address''),
          \<lparr>net = 0, trace = [Invoke ''lookupPTR'' ''example.com''], stdout = [], stderr = []\<rparr>)
   \<and> ParseIP ''8.8.8.8'' \<noteq> None
   \<and> fst (LookupAddr answering_resolver ''8.8.8.8'' (net (start 0))) = Inr [''dns.google.'', ''dns2.google.'']
   \<and> fst (lookupPTR answering_resolver ''8.8.8.8'' (start 0)) = Inr [''dns.google.'', ''dns2.google.'']
   \<and> trace (snd (lookupPTR answering_resolver ''8.8.8.8'' (start 0)))
       = [Invoke ''lookupPTR'' ''8.8.8.8'', LookupAddrCall ''8.8.8.8'']"
proof -
  have bad: "ParseIP ''example.com'' = None" by code_simp
  have good: "ParseIP ''8.8.8.8'' \<noteq> None" by code_simp
  have ans: "fst (LookupAddr answering_resolver ''8.8.8.8'' (net (start 0))) = Inr [''dns.google.'', ''dns2.google.'']"
    by (simp add: answering_resolver_def)
  show ?thesis
    using C3_lookupPTR [of "''example.com''" answering_resolver "start 0"]
          C3_lookupPTR [of "''8.8.8.8''" answering_resolver "start 0"] bad good ans
    by (simp add: start_def enter_def)
qed

subsection \<open>Evaluating the address parser and the formatter\<close>

lemma replicate_16: "replicate 16 (x::byte) = [x, x, x, x, x, x, x, x, x, x, x, x, x, x, x, x]"
  by (simp add: numeral_eq_Suc)

lemma shift_loop_numeral:
  "shift_loop ip e n (numeral k) =
     shift_loop (ip[e + pred_numeral k + n := ip ! (e + pred_numeral k)]) e n (pred_numeral k)"
  by (simp add: numeral_eq_Suc)

lemma clear_numeral:
  "clear ip e (numeral k) = clear (ip[e + pred_numeral k := 0]) e (pred_numeral k)"
  by (simp add: numeral_eq_Suc)

lemma ParseIP_example_v4:
  "ParseIP ''93.184.216.34'' = Some (v4InV6Prefix @ [93, 184, 216, 34])"
  by (simp add: ParseIP_def ParseAddr_def parseIPv4_def parseIPv4Fields_def isDigit_def
      byte_of_char_def Let_def)

lemma ParseIP_example_v6:
  "ParseIP ''2606:2800:220:1:248:1893:25c8:1946''
     = Some [0x26, 0x06, 0x28, 0x00, 0x02, 0x20, 0x00, 0x01,
             0x02, 0x48, 0x18, 0x93, 0x25, 0xc8, 0x19, 0x46]"
  by (simp add: ParseIP_def ParseAddr_def parseIPv6_def parseIPv6_loop.simps hexval_def
      byte_of_char_def Let_def replicate_16)

lemma ParseIP_example_mapped:
  "ParseIP ''::ffff:192.0.2.1'' = Some (v4InV6Prefix @ [192, 0, 2, 1])"
  by (simp add: ParseIP_def ParseAddr_def parseIPv6_def parseIPv6_loop.simps hexval_def
      parseIPv4Fields_def isDigit_def byte_of_char_def Let_def replicate_16 v4InV6Prefix_def
      shift_loop_numeral clear_numeral)

lemma ParseIP_not_an_address: "ParseIP ''not-an-address'' = None"
  by (simp add: ParseIP_def ParseAddr_def)

lemma To4_mapped: "To4 (Some (v4InV6Prefix @ [a, b, c, d])) = Some [a, b, c, d]"
  by (simp add: isZeros_def v4InV6Prefix_def)

lemma To4_example_v4: "To4 (ParseIP ''93.184.216.34'') = Some [93, 184, 216, 34]"
  by (simp only: ParseIP_example_v4 To4_mapped)

lemma To4_example_mapped: "To4 (ParseIP ''::ffff:192.0.2.1'') = Some [192, 0, 2, 1]"
  by (simp only: ParseIP_example_mapped To4_mapped)

lemma To4_not_an_address: "To4 (ParseIP ''not-an-address'') = None"
  by (simp only: ParseIP_not_an_address To4.simps)

lemma To16_not_an_address: "To16 (ParseIP ''not-an-address'') = None"
  by (simp only: ParseIP_not_an_address To16.simps)

lemma To4_example_v6: "To4 (ParseIP ''2606:2800:220:1:248:1893:25c8:1946'') = None"
  by (simp add: ParseIP_example_v6 isZeros_def)

lemma To16_example_v6: "To16 (ParseIP ''2606:2800:220:1:248:1893:25c8:1946'') \<noteq> None"
  by (simp add: ParseIP_example_v6)

lemma fmt_d_serial: "fmt_d 2024010100 = ''2024010100''"
  by (simp add: fmt_d.simps digit_char_def)

subsection \<open>What the two address tests mean\<close>

lemma length_parseIPv4Fields_loop:
  "parseIPv4Fields_loop s first prevDot val digLen fs0 = Some fs \<Longrightarrow>
   length fs0 \<le> 3 \<Longrightarrow> length fs = 4"
proof (induction s first prevDot val digLen fs0 rule: parseIPv4Fields_loop.induct)
  case (1 first prevDot val digLen fs0)
  then show ?case by (auto split: if_splits)
next
  case (2 c cs first prevDot val digLen fs0)
  then show ?case by (auto simp: Let_def split: if_splits)
qed

lemma length_parseIPv4Fields: "parseIPv4Fields s = Some fs \<Longrightarrow> length fs = 4"
  using length_parseIPv4Fields_loop [of s True False 0 0 "[]" fs]
  by (simp add: parseIPv4Fields_def)

lemma length_store [simp]: "length (store ip i bs) = length ip"
  by (induction bs arbitrary: ip i) simp_all

lemma length_shift_loop [simp]: "length (shift_loop ip e n k) = length ip"
  by (induction k arbitrary: ip) simp_all

lemma length_clear [simp]: "length (clear ip e k) = length ip"
  by (induction k arbitrary: ip) simp_all

lemma length_parseIPv6_loop:
  "parseIPv6_loop s i ellipsis ip = Some (rest, i', ellipsis', ip') \<Longrightarrow> length ip' = length ip"
proof (induction s i ellipsis ip rule: parseIPv6_loop.induct)
  case (1 s i ellipsis ip)
  show ?case
    using "1.prems" "1.IH"
    by (subst (asm) parseIPv6_loop.simps)
       (auto simp: Let_def split: if_splits option.splits prod.splits)
qed

lemma length_parseIPv6: "parseIPv6 s = Some (ip, zone) \<Longrightarrow> length ip = 16"
  by (auto simp: parseIPv6_def Let_def split: if_splits option.splits prod.splits
      dest: length_parseIPv6_loop)

lemma length_ParseAddr_scan: "ParseAddr_scan inp s = Some (ip, zone) \<Longrightarrow> length ip = 16"
  by (induction inp s rule: ParseAddr_scan.induct)
     (auto simp: parseIPv4_def v4InV6Prefix_def split: if_splits option.splits
       dest: length_parseIPv4Fields length_parseIPv6)

lemma length_ParseIP: "ParseIP s = Some ip \<Longrightarrow> length ip = 16"
  by (auto simp: ParseIP_def ParseAddr_def split: option.splits prod.splits if_splits
      dest: length_ParseAddr_scan)

lemma To16_ParseIP: "To16 (ParseIP a) \<noteq> None \<longleftrightarrow> ParseIP a \<noteq> None"
  by (cases "ParseIP a") (auto dest: length_ParseIP)

lemma To4_ParseIP:
  "To4 (ParseIP a) \<noteq> None \<longleftrightarrow> (\<exists>b1 b2 b3 b4. ParseIP a = Some (v4InV6Prefix @ [b1, b2, b3, b4]))"
proof
  assume "To4 (ParseIP a) \<noteq> None"
  then obtain ip where ip: "ParseIP a = Some ip" "length ip = 16"
      "isZeros (take 10 ip)" "ip ! 10 = 0xff" "ip ! 11 = 0xff"
    by (cases "ParseIP a") (auto dest: length_ParseIP split: if_splits)
  have "ip = take 10 ip @ [ip ! 10, ip ! 11, ip ! 12, ip ! 13, ip ! 14, ip ! 15]"
    using ip(2) by (intro nth_equalityI) (auto simp: nth_append less_Suc_eq numeral_eq_Suc)
  moreover have "take 10 ip = replicate 10 0"
    using ip(2,3) by (intro replicate_eqI) (auto simp: isZeros_def list_all_iff)
  ultimately have "ip = v4InV6Prefix @ [ip ! 12, ip ! 13, ip ! 14, ip ! 15]"
    using ip(4,5) by (simp add: v4InV6Prefix_def numeral_eq_Suc)
  with ip(1) show "\<exists>b1 b2 b3 b4. ParseIP a = Some (v4InV6Prefix @ [b1, b2, b3, b4])"
    by metis
next
  assume "\<exists>b1 b2 b3 b4. ParseIP a = Some (v4InV6Prefix @ [b1, b2, b3, b4])"
  then show "To4 (ParseIP a) \<noteq> None"
    by (auto simp only: To4_mapped)
qed

subsection \<open>The address lookups\<close>

lemma fst_perform:
  "fst (perform ev f w) = (case fst (f (net w)) of Inl m \<Rightarrow> Inl (LibError m) | Inr v \<Rightarrow> Inr v)"
  by (simp add: perform_def split: prod.splits sum.splits)

lemma net_enter [simp]: "net (enter f a w) = net w"
  by (simp add: enter_def)

lemma lookupA_result:
  "fst (LookupHost r d (net w)) = Inr addrs \<Longrightarrow>
   fst (lookupA r d w) = Inr (filter (\<lambda>a. To4 (ParseIP a) \<noteq> None) addrs)"
  using fst_perform [of "LookupHostCall d" "LookupHost r d" "enter ''lookupA'' d w"]
  by (auto simp: lookupA_def lookupA_loop_filter split: prod.splits sum.splits)

lemma lookupAAAA_result:
  "fst (LookupHost r d (net w)) = Inr addrs \<Longrightarrow>
   fst (lookupAAAA r d w)
     = Inr (filter (\<lambda>a. To16 (ParseIP a) \<noteq> None \<and> To4 (ParseIP a) = None) addrs)"
  using fst_perform [of "LookupHostCall d" "LookupHost r d" "enter ''lookupAAAA'' d w"]
  by (auto simp: lookupAAAA_def lookupAAAA_loop_filter split: prod.splits sum.splits)

text \<open>
  Claim C4. When the host lookup returns the addresses \<open>addrs\<close>, \<^verbatim>\<open>lookupA\<close> returns
  the addresses whose parsed form converts to four bytes (\<^verbatim>\<open>To4\<close> is not nil) and
  \<^verbatim>\<open>lookupAAAA\<close> those whose parsed form is a 16-byte address that does not convert to
  four bytes, each as the sublist of \<open>addrs\<close> in the resolver's order. For the two
  addresses of the specification, A is the first and AAAA the second. The first test
  holds exactly of the strings that parse to an address with the IPv4-in-IPv6 prefix
  (every dotted-quad literal does, and so does an IPv4-mapped IPv6 literal), the second
  exactly of the strings that parse to any other address.
\<close>

theorem C4_A_AAAA_filter:
  "fst (LookupHost r d (net w)) = Inr addrs \<Longrightarrow>
   fst (lookupA r d w) = Inr (filter (\<lambda>a. To4 (ParseIP a) \<noteq> None) addrs)
   \<and> fst (lookupAAAA r d w)
       = Inr (filter (\<lambda>a. To16 (ParseIP a) \<noteq> None \<and> To4 (ParseIP a) = None) addrs)
   \<and> (addrs = [''93.184.216.34'', ''2606:2800:220:1:248:1893:25c8:1946''] \<longrightarrow>
        fst (lookupA r d w) = Inr [''93.184.216.34'']
        \<and> fst (lookupAAAA r d w) = Inr [''2606:2800:220:1:248:1893:25c8:1946''])
   \<and> (\<forall>a. To4 (ParseIP a) \<noteq> None
          \<longleftrightarrow> (\<exists>b1 b2 b3 b4. ParseIP a = Some (v4InV6Prefix @ [b1, b2, b3, b4])))
   \<and> (\<forall>a. To16 (ParseIP a) \<noteq> None \<and> To4 (ParseIP a) = None
          \<longleftrightarrow> ParseIP a \<noteq> None
              \<and> \<not> (\<exists>b1 b2 b3 b4. ParseIP a = Some (v4InV6Prefix @ [b1, b2, b3, b4])))"
proof -
  assume ans: "fst (LookupHost r d (net w)) = Inr addrs"
  have results:
    "fst (lookupA r d w) = Inr (filter (\<lambda>a. To4 (ParseIP a) \<noteq> None) addrs)
     \<and> fst (lookupAAAA r d w)
         = Inr (filter (\<lambda>a. To16 (ParseIP a) \<noteq> None \<and> To4 (ParseIP a) = None) addrs)
     \<and> (addrs = [''93.184.216.34'', ''2606:2800:220:1:248:1893:25c8:1946''] \<longrightarrow>
          fst (lookupA r d w) = Inr [''93.184.216.34'']
          \<and> fst (lookupAAAA r d w) = Inr [''2606:2800:220:1:248:1893:25c8:1946''])"
    using lookupA_result [OF ans] lookupAAAA_result [OF ans]
    by (simp add: To4_example_v4 To4_example_v6 To16_example_v6)
  have A_test: "\<forall>a. To4 (ParseIP a) \<noteq> None
          \<longleftrightarrow> (\<exists>b1 b2 b3 b4. ParseIP a = Some (v4InV6Prefix @ [b1, b2, b3, b4]))"
    using To4_ParseIP by blast
  have AAAA_test: "\<forall>a. To16 (ParseIP a) \<noteq> None \<and> To4 (ParseIP a) = None
          \<longleftrightarrow> ParseIP a \<noteq> None
              \<and> \<not> (\<exists>b1 b2 b3 b4. ParseIP a = Some (v4InV6Prefix @ [b1, b2, b3, b4]))"
    using To4_ParseIP To16_ParseIP by blast
  from results A_test AAAA_test show ?thesis by blast
qed

theorem C4_A_AAAA_filter_witness:
  "fst (LookupHost answering_resolver ''example.com'' (net (start 0)))
     = Inr [''93.184.216.34'', ''2606:2800:220:1:248:1893:25c8:1946'',
            ''::ffff:192.0.2.1'', ''not-an-address'']
   \<and> fst (lookupA answering_resolver ''example.com'' (start 0))
       = Inr [''93.184.216.34'', ''::ffff:192.0.2.1'']
   \<and> fst (lookupAAAA answering_resolver ''example.com'' (start 0))
       = Inr [''2606:2800:220:1:248:1893:25c8:1946'']"
proof -
  have ans: "fst (LookupHost answering_resolver ''example.com'' (net (start 0)))
     = Inr [''93.184.216.34'', ''2606:2800:220:1:248:1893:25c8:1946'',
            ''::ffff:192.0.2.1'', ''not-an-address'']"
    by (simp add: answering_resolver_def)
  from C4_A_AAAA_filter [OF ans]
  have "fst (lookupA answering_resolver ''example.com'' (start 0))
          = Inr (filter (\<lambda>a. To4 (ParseIP a) \<noteq> None)
                  [''93.184.216.34'', ''2606:2800:220:1:248:1893:25c8:1946'',
                   ''::ffff:192.0.2.1'', ''not-an-address''])"
   and "fst (lookupAAAA answering_resolver ''example.com'' (start 0))
          = Inr (filter (\<lambda>a. To16 (ParseIP a) \<noteq> None \<and> To4 (ParseIP a) = None)
                  [''93.184.216.34'', ''2606:2800:220:1:248:1893:25c8:1946'',
                   ''::ffff:192.0.2.1'', ''not-an-address''])"
    by blast+
  then show ?thesis
    using ans
    by (simp add: To4_example_v4 To4_example_mapped To4_not_an_address To16_not_an_address
        To4_example_v6 To16_example_v6)
qed

subsection \<open>The direct queries\<close>

lemma lookupSOA_loop_map:
  "lookupSOA_loop rrs result =
     result @ [''NS: '' @ Ns soa @ '', Mbox: '' @ Mbox soa @ '', Serial: '' @ fmt_d (unat (Serial soa)).
               RR_SOA soa \<leftarrow> rrs]"
  by (induction rrs arbitrary: result) (simp_all split: RR.splits)

lemma fst_dnsQuery:
  "fst (dnsQuery r d q w) =
     (case fst (Exchange r (Fqdn r d) (StringToType q) ''8.8.8.8:53'' (net w)) of
        Inl m \<Rightarrow> Inl (LibError m)
      | Inr resp \<Rightarrow>
          if Rcode resp \<noteq> RcodeSuccess
            then Inl (Errorf (''invalid answer for '' @ d @ '' type '' @ q))
          else Inr (Answer resp))"
  by (simp add: dnsQuery_def perform_def split: prod.splits sum.splits)

text \<open>
  Claim C5. When the exchange for the SOA query succeeds with response code success,
  \<^verbatim>\<open>lookupSOA\<close> returns, without error, one line \<open>NS: <ns>, Mbox: <mbox>, Serial: <serial>\<close>
  for each SOA record of the answer section, in order, and nothing for a record of any
  other type. For the one SOA record of the specification the result is the one line
  given there.
\<close>

theorem C5_lookupSOA_format:
  "fst (Exchange r (Fqdn r d) 6 ''8.8.8.8:53'' (net w)) = Inr resp \<Longrightarrow>
   Rcode resp = RcodeSuccess \<Longrightarrow>
   fst (lookupSOA r d w)
     = Inr [''NS: '' @ Ns soa @ '', Mbox: '' @ Mbox soa @ '', Serial: '' @ fmt_d (unat (Serial soa)).
            RR_SOA soa \<leftarrow> Answer resp]
   \<and> (Answer resp = [RR_SOA \<lparr>Ns = ''ns1.example.com'', Mbox = ''admin.example.com'',
                              Serial = 2024010100\<rparr>] \<longrightarrow>
        fst (lookupSOA r d w)
          = Inr [''NS: ns1.example.com, Mbox: admin.example.com, Serial: 2024010100''])"
proof -
  assume ex: "fst (Exchange r (Fqdn r d) 6 ''8.8.8.8:53'' (net w)) = Inr resp"
     and ok: "Rcode resp = RcodeSuccess"
  have "fst (dnsQuery r d ''SOA'' (enter ''lookupSOA'' d w)) = Inr (Answer resp)"
    using ex ok by (simp add: fst_dnsQuery StringToType_def)
  then have run: "fst (lookupSOA r d w) = Inr (lookupSOA_loop (Answer resp) [])"
    by (auto simp: lookupSOA_def split: prod.splits sum.splits)
  have "lookupSOA_loop (Answer resp) [] =
          [''NS: '' @ Ns soa @ '', Mbox: '' @ Mbox soa @ '', Serial: '' @ fmt_d (unat (Serial soa)).
           RR_SOA soa \<leftarrow> Answer resp]"
    using lookupSOA_loop_map [of "Answer resp" "[]"] by (simp only: append_Nil)
  with run have general: "fst (lookupSOA r d w)
     = Inr [''NS: '' @ Ns soa @ '', Mbox: '' @ Mbox soa @ '', Serial: '' @ fmt_d (unat (Serial soa)).
            RR_SOA soa \<leftarrow> Answer resp]"
    by (simp only:)
  have example: "Answer resp = [RR_SOA \<lparr>Ns = ''ns1.example.com'', Mbox = ''admin.example.com'',
                              Serial = 2024010100\<rparr>] \<longrightarrow>
        fst (lookupSOA r d w)
          = Inr [''NS: ns1.example.com, Mbox: admin.example.com, Serial: 2024010100'']"
    by (simp add: run fmt_d_serial)
  from general example show ?thesis by blast
qed

theorem C5_lookupSOA_format_witness:
  "fst (Exchange answering_resolver (Fqdn answering_resolver ''example.com'') 6 ''8.8.8.8:53''
         (net (start 0)))
     = Inr \<lparr>Rcode = 0,
            Answer = [RR_other 5,
                      RR_SOA \<lparr>Ns = ''ns1.example.com'', Mbox = ''admin.example.com'',
                              Serial = 2024010100\<rparr>,
                      RR_DNAME \<lparr>DNAME.Target = ''example.net.''\<rparr>]\<rparr>
   \<and> Rcode \<lparr>Rcode = 0,
            Answer = [RR_other 5,
                      RR_SOA \<lparr>Ns = ''ns1.example.com'', Mbox = ''admin.example.com'',
                              Serial = 2024010100\<rparr>,
                      RR_DNAME \<lparr>DNAME.Target = ''example.net.''\<rparr>]\<rparr> = RcodeSuccess
   \<and> fst (lookupSOA answering_resolver ''example.com'' (start 0))
       = Inr [''NS: ns1.example.com, Mbox: admin.example.com, Serial: 2024010100'']"
proof -
  let ?resp = "\<lparr>Rcode = 0,
            Answer = [RR_other 5,
                      RR_SOA \<lparr>Ns = ''ns1.example.com'', Mbox = ''admin.example.com'',
                              Serial = 2024010100\<rparr>,
                      RR_DNAME \<lparr>DNAME.Target = ''example.net.''\<rparr>]\<rparr>"
  have ex: "fst (Exchange answering_resolver (Fqdn answering_resolver ''example.com'') 6
                  ''8.8.8.8:53'' (net (start 0))) = Inr ?resp"
    by (simp add: answering_resolver_def)
  have ok: "Rcode ?resp = RcodeSuccess" by (simp add: RcodeSuccess_def)
  show ?thesis
    using C5_lookupSOA_format [OF ex ok] ex ok by (simp add: fmt_d_serial)
qed

lemma direct_lookups_propagate:
  "fst (dnsQuery r d ''SOA'' (enter ''lookupSOA'' d w)) = Inl e \<Longrightarrow> fst (lookupSOA r d w) = Inl e"
  "fst (dnsQuery r d ''SRV'' (enter ''lookupSRV'' d w)) = Inl e \<Longrightarrow> fst (lookupSRV r d w) = Inl e"
  "fst (dnsQuery r d ''CERT'' (enter ''lookupCERT'' d w)) = Inl e \<Longrightarrow> fst (lookupCERT r d w) = Inl e"
  "fst (dnsQuery r d ''DNAME'' (enter ''lookupDNAME'' d w)) = Inl e \<Longrightarrow> fst (lookupDNAME r d w) = Inl e"
  by (auto simp: lookupSOA_def lookupSRV_def lookupCERT_def lookupDNAME_def
      split: prod.splits sum.splits)

text \<open>
  Claim C6. \<^verbatim>\<open>dnsQuery\<close>, for any record type, has three outcomes decided by the one
  exchange it makes: it returns the error of the exchange exactly when the exchange
  fails; it returns an error of its own (with the message \<open>invalid answer for <domain>
  type <qtype>\<close>) exactly when the exchange succeeds with a response code other than
  success; and it returns the answer section, without error, exactly when the exchange
  succeeds with response code success.
\<close>

theorem C6_dnsQuery_outcomes:
  "fst (Exchange r (Fqdn r d) (StringToType q) ''8.8.8.8:53'' (net w)) = res \<Longrightarrow>
   (\<forall>m. fst (dnsQuery r d q w) = Inl (LibError m) \<longleftrightarrow> res = Inl m)
   \<and> ((\<exists>m. fst (dnsQuery r d q w) = Inl (Errorf m))
        \<longleftrightarrow> (\<exists>resp. res = Inr resp \<and> Rcode resp \<noteq> RcodeSuccess))
   \<and> (fst (dnsQuery r d q w) = Inl (Errorf (''invalid answer for '' @ d @ '' type '' @ q))
        \<longleftrightarrow> (\<exists>resp. res = Inr resp \<and> Rcode resp \<noteq> RcodeSuccess))
   \<and> (\<forall>rrs. fst (dnsQuery r d q w) = Inr rrs
        \<longleftrightarrow> (\<exists>resp. res = Inr resp \<and> Rcode resp = RcodeSuccess \<and> Answer resp = rrs))"
  by (cases res) (auto simp: fst_dnsQuery)

theorem C6_dnsQuery_outcomes_witness:
  "fst (dnsQuery failing_resolver ''example.com'' ''SRV'' (start ())) = Inl (LibError ''i/o timeout'')
   \<and> fst (dnsQuery refusing_resolver ''example.com'' ''CERT'' (start ()))
       = Inl (Errorf ''invalid answer for example.com type CERT'')
   \<and> fst (dnsQuery answering_resolver ''example.com'' ''DNAME'' (start 0))
       = Inr [RR_other 5,
              RR_SOA \<lparr>Ns = ''ns1.example.com'', Mbox = ''admin.example.com'',
                      Serial = 2024010100\<rparr>,
              RR_DNAME \<lparr>DNAME.Target = ''example.net.''\<rparr>]"
proof -
  have e1: "fst (Exchange failing_resolver (Fqdn failing_resolver ''example.com'')
                  (StringToType ''SRV'') ''8.8.8.8:53'' (net (start ()))) = Inl ''i/o timeout''"
    by (simp add: failing_resolver_def)
  have e2: "fst (Exchange refusing_resolver (Fqdn refusing_resolver ''example.com'')
                  (StringToType ''CERT'') ''8.8.8.8:53'' (net (start ())))
              = Inr \<lparr>Rcode = 5, Answer = []\<rparr>"
    by (simp add: refusing_resolver_def failing_resolver_def)
  have e3: "fst (Exchange answering_resolver (Fqdn answering_resolver ''example.com'')
                  (StringToType ''DNAME'') ''8.8.8.8:53'' (net (start 0)))
              = Inr \<lparr>Rcode = 0,
                     Answer = [RR_other 5,
                               RR_SOA \<lparr>Ns = ''ns1.example.com'', Mbox = ''admin.example.com'',
                                       Serial = 2024010100\<rparr>,
                               RR_DNAME \<lparr>DNAME.Target = ''example.net.''\<rparr>]\<rparr>"
    by (simp add: answering_resolver_def)
  show ?thesis
    using C6_dnsQuery_outcomes [OF e1] C6_dnsQuery_outcomes [OF e2] C6_dnsQuery_outcomes [OF e3]
    by (simp add: RcodeSuccess_def)
qed

subsection \<open>The presenter\<close>



subsection \<open>IPv4-mapped and unparsable addresses\<close>

text \<open>
  Claim C10. Let the host lookup return \<open>addrs\<close> and let \<open>a\<close> be one of them. Both
  lookups return without error. If \<open>a\<close> parses to a 16-byte address with the
  IPv4-in-IPv6 prefix, as \<open>::ffff:192.0.2.1\<close> does, then \<open>a\<close> is among the results of
  \<^verbatim>\<open>lookupA\<close> and not among those of \<^verbatim>\<open>lookupAAAA\<close>: the test is \<^verbatim>\<open>To4\<close> of the parsed
  address, not the text. If \<open>a\<close> does not parse, it is in neither result.
\<close>

theorem C10_mapped_and_unparsable:
  "fst (LookupHost r d (net w)) = Inr addrs \<Longrightarrow> a \<in> set addrs \<Longrightarrow>
   \<not> isl (fst (lookupA r d w)) \<and> \<not> isl (fst (lookupAAAA r d w))
   \<and> ((\<exists>b1 b2 b3 b4. ParseIP a = Some (v4InV6Prefix @ [b1, b2, b3, b4])) \<longrightarrow>
        a \<in> set (projr (fst (lookupA r d w))) \<and> a \<notin> set (projr (fst (lookupAAAA r d w))))
   \<and> (ParseIP a = None \<longrightarrow>
        a \<notin> set (projr (fst (lookupA r d w))) \<and> a \<notin> set (projr (fst (lookupAAAA r d w))))
   \<and> ParseIP ''::ffff:192.0.2.1'' = Some (v4InV6Prefix @ [192, 0, 2, 1])"
proof -
  assume ans: "fst (LookupHost r d (net w)) = Inr addrs" and mem: "a \<in> set addrs"
  have mapped: "To4 (ParseIP a) \<noteq> None"
    if "\<exists>b1 b2 b3 b4. ParseIP a = Some (v4InV6Prefix @ [b1, b2, b3, b4])"
    using that by (auto simp only: To4_mapped)
  show ?thesis
    using lookupA_result [OF ans] lookupAAAA_result [OF ans] mem mapped
    by (auto simp: ParseIP_example_mapped)
qed

theorem C10_mapped_and_unparsable_witness:
  "fst (LookupHost answering_resolver ''example.com'' (net (start 0)))
     = Inr [''93.184.216.34'', ''2606:2800:220:1:248:1893:25c8:1946'',
            ''::ffff:192.0.2.1'', ''not-an-address'']
   \<and> ''::ffff:192.0.2.1'' \<in> set [''93.184.216.34'', ''2606:2800:220:1:248:1893:25c8:1946'',
            ''::ffff:192.0.2.1'', ''not-an-address'']
   \<and> ParseIP ''::ffff:192.0.2.1'' = Some (v4InV6Prefix @ [192, 0, 2, 1])
   \<and> ''::ffff:192.0.2.1'' \<in> set (projr (fst (lookupA answering_resolver ''example.com'' (start 0))))
   \<and> ''::ffff:192.0.2.1'' \<notin> set (projr (fst (lookupAAAA answering_resolver ''example.com'' (start 0))))
   \<and> ''not-an-address'' \<in> set [''93.184.216.34'', ''2606:2800:220:1:248:1893:25c8:1946'',
            ''::ffff:192.0.2.1'', ''not-an-address'']
   \<and> ParseIP ''not-an-address'' = None
   \<and> ''not-an-address'' \<notin> set (projr (fst (lookupA answering_resolver ''example.com'' (start 0))))
   \<and> ''not-an-address'' \<notin> set (projr (fst (lookupAAAA answering_resolver ''example.com'' (start 0))))"
proof -
  have ans: "fst (LookupHost answering_resolver ''example.com'' (net (start 0)))
     = Inr [''93.184.216.34'', ''2606:2800:220:1:248:1893:25c8:1946'',
            ''::ffff:192.0.2.1'', ''not-an-address'']"
    by (simp add: answering_resolver_def)
  have m1: "''::ffff:192.0.2.1'' \<in> set [''93.184.216.34'', ''2606:2800:220:1:248:1893:25c8:1946'',
            ''::ffff:192.0.2.1'', ''not-an-address'']"
    by simp
  have m2: "''not-an-address'' \<in> set [''93.184.216.34'', ''2606:2800:220:1:248:1893:25c8:1946'',
            ''::ffff:192.0.2.1'', ''not-an-address'']"
    by simp
  have p1: "\<exists>b1 b2 b3 b4. ParseIP ''::ffff:192.0.2.1'' = Some (v4InV6Prefix @ [b1, b2, b3, b4])"
    using ParseIP_example_mapped by blast
  from C10_mapped_and_unparsable [OF ans m1] p1
  have r1: "''::ffff:192.0.2.1'' \<in> set (projr (fst (lookupA answering_resolver ''example.com'' (start 0))))
        \<and> ''::ffff:192.0.2.1'' \<notin> set (projr (fst (lookupAAAA answering_resolver ''example.com'' (start 0))))"
    by blast
  from C10_mapped_and_unparsable [OF ans m2] ParseIP_not_an_address
  have r2: "''not-an-address'' \<notin> set (projr (fst (lookupA answering_resolver ''example.com'' (start 0))))
        \<and> ''not-an-address'' \<notin> set (projr (fst (lookupAAAA answering_resolver ''example.com'' (start 0))))"
    by blast
  from ans m1 m2 r1 r2 ParseIP_example_mapped ParseIP_not_an_address show ?thesis
    by blast
qed

end
